theory Spec2Isabelle
  imports Main
begin

section \<open>The Kubernetes client of the reconciler (kubeclient.go)\<close>

text \<open>
  The client combines three collaborators that are not part of the repository: the
  discovery REST mapper, the constructor of REST clients, and the cluster API that
  answers get, create, replace, patch, delete and list requests. They are the fields
  of the record \<open>gateway\<close> below. Every request the client sends is appended to the
  field \<open>calls\<close> of the client state, and the answer of the cluster may depend on all
  requests sent before. Go's multiple return values are tuples; a \<open>nil\<close> error is
  \<open>None\<close>.
\<close>

subsection \<open>Data\<close>

text \<open>The struct \<open>Metadata\<close> (lines 31-38).\<close>

record Metadata =
  Name :: string
  Namespace :: string
  Resource :: string
  Group :: string
  Version :: string
  Kind :: string

text \<open>The value of \<open>&Metadata{}\<close>: every field is the empty string.\<close>

definition emptyMetadata :: Metadata where
  "emptyMetadata =
     \<lparr>Name = '''', Namespace = '''', Resource = '''', Group = '''', Version = '''', Kind = ''''\<rparr>"

text \<open>Type identities of package \<open>schema\<close>.\<close>

record schema_GroupVersionKind =
  gvk_Group :: string
  gvk_Version :: string
  gvk_Kind :: string

record schema_GroupVersionResource =
  gvr_Group :: string
  gvr_Version :: string
  gvr_Resource :: string

record schema_GroupKind =
  gk_Group :: string
  gk_Kind :: string

record schema_GroupVersion =
  gv_Group :: string
  gv_Version :: string

definition GroupKind :: "schema_GroupVersionKind \<Rightarrow> schema_GroupKind" where
  "GroupKind gvk = \<lparr>gk_Group = gvk_Group gvk, gk_Kind = gvk_Kind gvk\<rparr>"

definition GroupVersion :: "schema_GroupVersionKind \<Rightarrow> schema_GroupVersion" where
  "GroupVersion gvk = \<lparr>gv_Group = gvk_Group gvk, gv_Version = gvk_Version gvk\<rparr>"

text \<open>
  A manifest (\<open>unstructured.Unstructured\<close>): the fields the client reads or writes,
  with the apiVersion kept as its group and version, and the rest of the document
  as an opaque body.
\<close>

record Unstructured =
  u_Group :: string
  u_Version :: string
  u_Kind :: string
  u_Name :: string
  u_Namespace :: string
  u_Body :: string

definition GroupVersionKind :: "Unstructured \<Rightarrow> schema_GroupVersionKind" where
  "GroupVersionKind u = \<lparr>gvk_Group = u_Group u, gvk_Version = u_Version u, gvk_Kind = u_Kind u\<rparr>"

definition GetName :: "Unstructured \<Rightarrow> string" where
  "GetName u = u_Name u"

definition GetNamespace :: "Unstructured \<Rightarrow> string" where
  "GetNamespace u = u_Namespace u"

definition SetNamespace :: "string \<Rightarrow> Unstructured \<Rightarrow> Unstructured" where
  "SetNamespace namespace u = u\<lparr>u_Namespace := namespace\<rparr>"

text \<open>Errors of the cluster API, with the reason \<open>k8serrors.IsNotFound\<close> looks at.\<close>

datatype StatusReason =
  StatusReasonNotFound | StatusReasonAlreadyExists | StatusReasonForbidden
  | StatusReasonInvalid | StatusReasonTimeout | StatusReasonUnknown

datatype error = StatusError (err_Reason: StatusReason) (err_Message: string)

definition IsNotFound :: "error \<Rightarrow> bool" where
  "IsNotFound err = (err_Reason err = StatusReasonNotFound)"

text \<open>The scope of a resolved type and its name (\<open>meta.RESTScope\<close>).\<close>

datatype RESTScope = RESTScopeNamespace | RESTScopeRoot

definition RESTScopeNameNamespace :: string where
  "RESTScopeNameNamespace = ''namespace''"

definition RESTScopeNameRoot :: string where
  "RESTScopeNameRoot = ''root''"

fun scope_Name :: "RESTScope \<Rightarrow> string" where
  "scope_Name RESTScopeNamespace = RESTScopeNameNamespace"
| "scope_Name RESTScopeRoot = RESTScopeNameRoot"

text \<open>The resolved type (\<open>meta.RESTMapping\<close>).\<close>

record RESTMapping =
  rm_Resource :: schema_GroupVersionResource
  rm_GroupVersionKind :: schema_GroupVersionKind
  rm_Scope :: RESTScope

text \<open>The connection configuration (\<open>rest.Config\<close>): the fields the client writes.\<close>

record rest_Config =
  cfg_Host :: string
  cfg_APIPath :: string
  cfg_GroupVersion :: "schema_GroupVersion option"
  cfg_ContentConfig :: string

datatype rest_Interface = RESTClient rest_Config

text \<open>\<open>resource.Helper\<close> as \<open>resource.NewHelper\<close> builds it.\<close>

record resource_Helper =
  h_Resource :: string
  h_RESTClient :: rest_Interface
  h_NamespaceScoped :: bool

definition NewHelper :: "rest_Interface \<Rightarrow> RESTMapping \<Rightarrow> resource_Helper" where
  "NewHelper client mapping =
     \<lparr>h_Resource = gvr_Resource (rm_Resource mapping),
      h_RESTClient = client,
      h_NamespaceScoped = (scope_Name (rm_Scope mapping) = RESTScopeNameNamespace)\<rparr>"

text \<open>\<open>resource.Info\<close>: the fields set at lines 116-123.\<close>

record resource_Info =
  info_Client :: rest_Interface
  info_Mapping :: RESTMapping
  info_Namespace :: string
  info_Name :: string
  info_Source :: string
  info_ResourceVersion :: string

datatype PatchType =
  JSONPatchType | MergePatchType | StrategicMergePatchType | ApplyPatchType

record DeleteOptions =
  do_GracePeriodSeconds :: "int option"
  do_PropagationPolicy :: "string option"

text \<open>The value of \<open>metav1.DeleteOptions{}\<close>.\<close>

definition emptyDeleteOptions :: DeleteOptions where
  "emptyDeleteOptions = \<lparr>do_GracePeriodSeconds = None, do_PropagationPolicy = None\<rparr>"

subsection \<open>Requests and the gateway\<close>

text \<open>
  One constructor for every request the client sends. A request of the dynamic client
  carries \<open>Some namespace\<close> when it goes through \<open>.Namespace(namespace)\<close>, the
  namespace-scoped endpoint, and \<open>None\<close> when it goes to the cluster-scoped endpoint.
\<close>

datatype call =
    CallGet resource_Info
  | CallCreate resource_Helper string bool Unstructured
  | CallReplace resource_Helper Unstructured string string
  | CallRefresh resource_Info Unstructured bool
  | CallDelete schema_GroupVersionResource "string option" string DeleteOptions
  | CallPatch schema_GroupVersionResource "string option" string PatchType string
  | CallInfos rest_Config string

text \<open>
  The collaborators. \<open>mapper_RESTMapping\<close> and \<open>mapper_KindFor\<close> are the two methods of
  \<open>kube.mapper\<close> and \<open>rest_RESTClientFor\<close> is \<open>rest.RESTClientFor\<close>. The others
  take the requests sent before as their first argument: \<open>gw_Get\<close> is \<open>info.Get()\<close>
  (line 125), which returns the refreshed info when the resource exists, \<open>gw_Create\<close>
  is \<open>helper.Create\<close> (line 131), \<open>gw_Refresh\<close> is \<open>info.Refresh\<close> (line 148), and
  \<open>gw_Delete\<close> and \<open>gw_Patch\<close> are \<open>Delete\<close> and \<open>Patch\<close> of the dynamic client.
  \<open>gw_replace\<close> is a parameter for the function that \<open>newReplace(helper)\<close> returns
  (lines 142-143), which is defined in another file of the package; the client only
  calls it and reads its two results. \<open>gw_Infos\<close> is the builder chain of
  \<open>DeleteNamespace\<close> up to \<open>r.Infos()\<close> (lines 306-319), the listing of all resources of
  a namespace.
\<close>

record gateway =
  mapper_RESTMapping :: "schema_GroupKind \<Rightarrow> string \<Rightarrow> error + RESTMapping"
  mapper_KindFor :: "schema_GroupVersionResource \<Rightarrow> error + schema_GroupVersionKind"
  rest_RESTClientFor :: "rest_Config \<Rightarrow> error + rest_Interface"
  gw_Get :: "call list \<Rightarrow> resource_Info \<Rightarrow> error + resource_Info"
  gw_Create :: "call list \<Rightarrow> resource_Helper \<Rightarrow> string \<Rightarrow> bool \<Rightarrow> Unstructured
                 \<Rightarrow> error + Unstructured"
  gw_replace :: "call list \<Rightarrow> resource_Helper \<Rightarrow> Unstructured \<Rightarrow> string \<Rightarrow> string
                 \<Rightarrow> error + Unstructured"
  gw_Refresh :: "call list \<Rightarrow> resource_Info \<Rightarrow> Unstructured \<Rightarrow> bool \<Rightarrow> error option"
  gw_Delete :: "call list \<Rightarrow> schema_GroupVersionResource \<Rightarrow> string option \<Rightarrow> string
                 \<Rightarrow> DeleteOptions \<Rightarrow> error option"
  gw_Patch :: "call list \<Rightarrow> schema_GroupVersionResource \<Rightarrow> string option \<Rightarrow> string
                 \<Rightarrow> PatchType \<Rightarrow> string \<Rightarrow> error + Unstructured"
  gw_Infos :: "call list \<Rightarrow> rest_Config \<Rightarrow> string \<Rightarrow> resource_Info list \<times> error option"

text \<open>
  The struct \<open>KubeClient\<close> (lines 40-44): its configuration, which
  \<open>ApplyWithNamespaceOverride\<close> writes, and the requests sent so far through its
  clients.
\<close>

record KubeClient =
  config :: rest_Config
  calls :: "call list"

text \<open>Sending a request: the answer of the gateway, and the request recorded.\<close>

definition info_Get ::
  "gateway \<Rightarrow> KubeClient \<Rightarrow> resource_Info \<Rightarrow> (error + resource_Info) \<times> KubeClient" where
  "info_Get gw kube info =
     (gw_Get gw (calls kube) info, kube\<lparr>calls := calls kube @ [CallGet info]\<rparr>)"

definition helper_Create ::
  "gateway \<Rightarrow> KubeClient \<Rightarrow> resource_Helper \<Rightarrow> string \<Rightarrow> bool \<Rightarrow> Unstructured
     \<Rightarrow> (error + Unstructured) \<times> KubeClient" where
  "helper_Create gw kube helper namespace modify obj =
     (gw_Create gw (calls kube) helper namespace modify obj,
      kube\<lparr>calls := calls kube @ [CallCreate helper namespace modify obj]\<rparr>)"

definition replace ::
  "gateway \<Rightarrow> KubeClient \<Rightarrow> resource_Helper \<Rightarrow> Unstructured \<Rightarrow> string \<Rightarrow> string
     \<Rightarrow> (error + Unstructured) \<times> KubeClient" where
  "replace gw kube helper obj namespace name =
     (gw_replace gw (calls kube) helper obj namespace name,
      kube\<lparr>calls := calls kube @ [CallReplace helper obj namespace name]\<rparr>)"

definition info_Refresh ::
  "gateway \<Rightarrow> KubeClient \<Rightarrow> resource_Info \<Rightarrow> Unstructured \<Rightarrow> bool
     \<Rightarrow> error option \<times> KubeClient" where
  "info_Refresh gw kube info obj ignoreError =
     (gw_Refresh gw (calls kube) info obj ignoreError,
      kube\<lparr>calls := calls kube @ [CallRefresh info obj ignoreError]\<rparr>)"

definition dynamic_Delete ::
  "gateway \<Rightarrow> KubeClient \<Rightarrow> schema_GroupVersionResource \<Rightarrow> string option \<Rightarrow> string
     \<Rightarrow> DeleteOptions \<Rightarrow> error option \<times> KubeClient" where
  "dynamic_Delete gw kube gvr ns name opts =
     (gw_Delete gw (calls kube) gvr ns name opts,
      kube\<lparr>calls := calls kube @ [CallDelete gvr ns name opts]\<rparr>)"

definition dynamic_Patch ::
  "gateway \<Rightarrow> KubeClient \<Rightarrow> schema_GroupVersionResource \<Rightarrow> string option \<Rightarrow> string
     \<Rightarrow> PatchType \<Rightarrow> string \<Rightarrow> (error + Unstructured) \<times> KubeClient" where
  "dynamic_Patch gw kube gvr ns name strategy p =
     (gw_Patch gw (calls kube) gvr ns name strategy p,
      kube\<lparr>calls := calls kube @ [CallPatch gvr ns name strategy p]\<rparr>)"

definition builder_Infos ::
  "gateway \<Rightarrow> KubeClient \<Rightarrow> string \<Rightarrow> (resource_Info list \<times> error option) \<times> KubeClient" where
  "builder_Infos gw kube namespace =
     (gw_Infos gw (calls kube) (config kube) namespace,
      kube\<lparr>calls := calls kube @ [CallInfos (config kube) namespace]\<rparr>)"

subsection \<open>The namespace of a manifest (lines 362-378)\<close>

definition setDefaultNamespaceIfScopedAndNoneSet ::
  "string \<Rightarrow> Unstructured \<Rightarrow> resource_Helper \<Rightarrow> Unstructured" where
  "setDefaultNamespaceIfScopedAndNoneSet namespace u helper =
     (if h_NamespaceScoped helper then
        (let resNamespace = GetNamespace u in
         if resNamespace = '''' then
           (let namespace1 = (if namespace = '''' then ''default'' else namespace)
            in SetNamespace namespace1 u)
         else u)
      else u)"

definition setNamespaceIfScoped ::
  "string \<Rightarrow> Unstructured \<Rightarrow> resource_Helper \<Rightarrow> Unstructured" where
  "setNamespaceIfScoped namespace u helper =
     (if GetNamespace u = '''' \<and> h_NamespaceScoped helper then SetNamespace namespace u
      else u)"

subsection \<open>\<open>newRestClient\<close> (lines 332-343)\<close>

definition UnstructuredPlusDefaultContentConfig :: string where
  "UnstructuredPlusDefaultContentConfig = ''UnstructuredPlusDefaultContentConfig''"

definition newRestClient ::
  "gateway \<Rightarrow> rest_Config \<Rightarrow> schema_GroupVersion \<Rightarrow> error + rest_Interface" where
  "newRestClient gw restConfig gv =
     (let c1 = restConfig\<lparr>cfg_ContentConfig := UnstructuredPlusDefaultContentConfig\<rparr>;
          c2 = c1\<lparr>cfg_GroupVersion := Some gv\<rparr>;
          c3 = (if length (gv_Group gv) = 0 then c2\<lparr>cfg_APIPath := ''/api''\<rparr>
                else c2\<lparr>cfg_APIPath := ''/apis''\<rparr>)
      in rest_RESTClientFor gw c3)"

subsection \<open>Apply (lines 84-155)\<close>

text \<open>
  The result is the pair the Go function returns, the manifest after the call (the
  function writes its namespace through the pointer) and the client after the call.
  The gateway's calls are taken not to write the name, namespace or kind of the
  manifest they are given.
\<close>

definition ApplyWithNamespaceOverride ::
  "gateway \<Rightarrow> KubeClient \<Rightarrow> Unstructured \<Rightarrow> string
     \<Rightarrow> (Metadata \<times> error option) \<times> Unstructured \<times> KubeClient" where
  "ApplyWithNamespaceOverride gw kube u namespaceOverride =
     (let metadata = emptyMetadata;
          gvk = GroupVersionKind u
      in case mapper_RESTMapping gw (GroupKind gvk) (gvk_Version gvk) of
           Inl err \<Rightarrow> ((metadata, Some err), u, kube)
         | Inr restMapping \<Rightarrow>
             (let gv = GroupVersion gvk;
                  kube1 = kube\<lparr>config := (config kube)\<lparr>cfg_GroupVersion := Some gv\<rparr>\<rparr>
              in case newRestClient gw (config kube1) gv of
                   Inl err \<Rightarrow> ((metadata, Some err), u, kube1)
                 | Inr restClient \<Rightarrow>
                     (let helper = NewHelper restClient restMapping;
                          u1 = setDefaultNamespaceIfScopedAndNoneSet namespaceOverride u helper;
                          u2 = setNamespaceIfScoped namespaceOverride u1 helper;
                          info = \<lparr>info_Client = restClient,
                                  info_Mapping = restMapping,
                                  info_Namespace = GetNamespace u2,
                                  info_Name = GetName u2,
                                  info_Source = '''',
                                  info_ResourceVersion = gvr_Version (rm_Resource restMapping)\<rparr>
                      in case info_Get gw kube1 info of
                           (Inl err, kube2) \<Rightarrow>
                             if \<not> IsNotFound err then ((metadata, Some err), u2, kube2)
                             else
                               (case helper_Create gw kube2 helper (GetNamespace u2) True u2 of
                                  (Inl err, kube3) \<Rightarrow> ((metadata, Some err), u2, kube3)
                                | (Inr created, kube3) \<Rightarrow>
                                    ((metadata\<lparr>Name := GetName u2,
                                               Namespace := GetNamespace u2,
                                               Kind := gvk_Kind (GroupVersionKind u2)\<rparr>, None),
                                     u2, kube3))
                         | (Inr info1, kube2) \<Rightarrow>
                             (case replace gw kube2 helper u2 (GetNamespace u2) (GetName u2) of
                                (Inl err, kube3) \<Rightarrow> ((metadata, Some err), u2, kube3)
                              | (Inr replacedObject, kube3) \<Rightarrow>
                                  (case info_Refresh gw kube3 info1 replacedObject True of
                                     (ignored, kube4) \<Rightarrow>
                                       ((metadata\<lparr>Name := GetName u2,
                                                  Namespace := GetNamespace u2,
                                                  Kind := gvk_Kind gvk\<rparr>, None),
                                        u2, kube4))))))"

definition Apply ::
  "gateway \<Rightarrow> KubeClient \<Rightarrow> Unstructured
     \<Rightarrow> (Metadata \<times> error option) \<times> Unstructured \<times> KubeClient" where
  "Apply gw kube u = ApplyWithNamespaceOverride gw kube u ''''"

subsection \<open>Delete (lines 161-207)\<close>

text \<open>
  \<open>strings.ToLower\<close> on the bytes of a string: the letters \<open>A\<close> to \<open>Z\<close> are moved to
  \<open>a\<close> to \<open>z\<close> and every other byte is kept. Go also lowers letters beyond ASCII;
  they stay beyond ASCII or become \<open>i\<close> or \<open>k\<close>, so the comparison with
  \<open>''namespace''\<close> is the same.
\<close>

definition toLower_byte :: "char \<Rightarrow> char" where
  "toLower_byte c =
     (let n = (of_char c :: nat) in if 65 \<le> n \<and> n \<le> 90 then char_of (n + 32) else c)"

definition ToLower :: "string \<Rightarrow> string" where
  "ToLower s = map toLower_byte s"

text \<open>
  The Go function returns a pointer that is \<open>nil\<close> on the three early returns and a
  fresh \<open>Metadata\<close> at the end, hence the \<open>Metadata option\<close>.
\<close>

definition DeleteResourceByKindAndNameAndNamespace ::
  "gateway \<Rightarrow> KubeClient \<Rightarrow> string \<Rightarrow> string \<Rightarrow> string \<Rightarrow> DeleteOptions
     \<Rightarrow> (Metadata option \<times> error option) \<times> KubeClient" where
  "DeleteResourceByKindAndNameAndNamespace gw kube kind name namespace opts =
     (case mapper_KindFor gw \<lparr>gvr_Group = '''', gvr_Version = '''', gvr_Resource = kind\<rparr> of
        Inl err \<Rightarrow> ((None, Some err), kube)
      | Inr gvk \<Rightarrow>
          (let isNamespaceResource = (ToLower (gvk_Kind gvk) = ''namespace'');
               namespace1 = (if \<not> isNamespaceResource \<and> namespace = '''' then ''default''
                             else namespace)
           in case mapper_RESTMapping gw (GroupKind gvk) (gvk_Version gvk) of
                Inl err \<Rightarrow> ((None, Some err), kube)
              | Inr restMapping \<Rightarrow>
                  (case newRestClient gw (config kube) (GroupVersion gvk) of
                     Inl err \<Rightarrow> ((None, Some err), kube)
                   | Inr restClient \<Rightarrow>
                       (let helper = NewHelper restClient restMapping
                        in case (if h_NamespaceScoped helper
                                 then dynamic_Delete gw kube (rm_Resource restMapping)
                                        (Some namespace1) name opts
                                 else dynamic_Delete gw kube (rm_Resource restMapping)
                                        None name opts) of
                             (err, kube1) \<Rightarrow>
                               (let namespace2 = (if isNamespaceResource then '''' else namespace1)
                                in ((Some \<lparr>Name = name, Namespace = namespace2, Resource = '''',
                                           Group = '''', Version = '''', Kind = kind\<rparr>, err),
                                    kube1))))))"

subsection \<open>Patch (lines 253-303)\<close>

definition PatchUsingStrategy ::
  "gateway \<Rightarrow> KubeClient \<Rightarrow> string \<Rightarrow> string \<Rightarrow> string \<Rightarrow> string \<Rightarrow> PatchType
     \<Rightarrow> (Metadata \<times> Unstructured option \<times> error option) \<times> KubeClient" where
  "PatchUsingStrategy gw kube kind name namespace p strategy =
     (let metadata = emptyMetadata
      in case mapper_KindFor gw \<lparr>gvr_Group = '''', gvr_Version = '''', gvr_Resource = kind\<rparr> of
           Inl err \<Rightarrow> ((metadata, None, Some err), kube)
         | Inr gvk \<Rightarrow>
             (case mapper_RESTMapping gw (GroupKind gvk) (gvk_Version gvk) of
                Inl err \<Rightarrow> ((metadata, None, Some err), kube)
              | Inr restMapping \<Rightarrow>
                  (case newRestClient gw (config kube) (GroupVersion gvk) of
                     Inl err \<Rightarrow> ((metadata, None, Some err), kube)
                   | Inr restClient \<Rightarrow>
                       (let helper = NewHelper restClient restMapping
                        in case (if h_NamespaceScoped helper
                                 then dynamic_Patch gw kube (rm_Resource restMapping)
                                        (Some namespace) name strategy p
                                 else dynamic_Patch gw kube (rm_Resource restMapping)
                                        None name strategy p) of
                             (Inl err, kube1) \<Rightarrow> ((metadata, None, Some err), kube1)
                           | (Inr u, kube1) \<Rightarrow>
                               (let gvr = rm_Resource restMapping
                                in ((metadata\<lparr>Name := GetName u,
                                              Namespace := GetNamespace u,
                                              Group := gvr_Group gvr,
                                              Resource := gvr_Resource gvr,
                                              Version := gvr_Version gvr,
                                              Kind := gvk_Kind gvk\<rparr>, Some u, None),
                                    kube1))))))"

definition Patch ::
  "gateway \<Rightarrow> KubeClient \<Rightarrow> string \<Rightarrow> string \<Rightarrow> string \<Rightarrow> string
     \<Rightarrow> (Metadata \<times> Unstructured option \<times> error option) \<times> KubeClient" where
  "Patch gw kube kind name namespace p =
     PatchUsingStrategy gw kube kind name namespace p StrategicMergePatchType"

subsection \<open>\<open>DeleteNamespace\<close> (lines 305-330)\<close>

definition DeleteNamespace ::
  "gateway \<Rightarrow> KubeClient \<Rightarrow> string \<Rightarrow> error option \<times> KubeClient" where
  "DeleteNamespace gw kube namespace =
     (case builder_Infos gw kube namespace of
        ((infos, err), kube1) \<Rightarrow>
          if err \<noteq> None then (err, kube1)
          else if length infos = 0 then
            (let namespaceRes = \<lparr>gvr_Group = '''', gvr_Version = ''v1'',
                                  gvr_Resource = ''namespaces''\<rparr>
             in dynamic_Delete gw kube1 namespaceRes None namespace emptyDeleteOptions)
          else (err, kube1))"

subsection \<open>Kinds of request\<close>

definition isDelete :: "call \<Rightarrow> bool" where
  "isDelete c = (case c of CallDelete gvr ns name opts \<Rightarrow> True | _ \<Rightarrow> False)"

definition isCreate :: "call \<Rightarrow> bool" where
  "isCreate c = (case c of CallCreate helper ns modify obj \<Rightarrow> True | _ \<Rightarrow> False)"

definition isReplace :: "call \<Rightarrow> bool" where
  "isReplace c = (case c of CallReplace helper obj ns name \<Rightarrow> True | _ \<Rightarrow> False)"

subsection \<open>Discovery documents and clusters used as examples\<close>

definition rm_deployments :: RESTMapping where
  "rm_deployments =
     \<lparr>rm_Resource = \<lparr>gvr_Group = ''apps'', gvr_Version = ''v1'', gvr_Resource = ''deployments''\<rparr>,
      rm_GroupVersionKind = \<lparr>gvk_Group = ''apps'', gvk_Version = ''v1'', gvk_Kind = ''Deployment''\<rparr>,
      rm_Scope = RESTScopeNamespace\<rparr>"

definition rm_clusterroles :: RESTMapping where
  "rm_clusterroles =
     \<lparr>rm_Resource = \<lparr>gvr_Group = ''rbac.authorization.k8s.io'', gvr_Version = ''v1'',
                     gvr_Resource = ''clusterroles''\<rparr>,
      rm_GroupVersionKind = \<lparr>gvk_Group = ''rbac.authorization.k8s.io'', gvk_Version = ''v1'',
                             gvk_Kind = ''ClusterRole''\<rparr>,
      rm_Scope = RESTScopeRoot\<rparr>"

definition rm_pods :: RESTMapping where
  "rm_pods =
     \<lparr>rm_Resource = \<lparr>gvr_Group = '''', gvr_Version = ''v1'', gvr_Resource = ''pods''\<rparr>,
      rm_GroupVersionKind = \<lparr>gvk_Group = '''', gvk_Version = ''v1'', gvk_Kind = ''Pod''\<rparr>,
      rm_Scope = RESTScopeNamespace\<rparr>"

definition rm_namespaces :: RESTMapping where
  "rm_namespaces =
     \<lparr>rm_Resource = \<lparr>gvr_Group = '''', gvr_Version = ''v1'', gvr_Resource = ''namespaces''\<rparr>,
      rm_GroupVersionKind = \<lparr>gvk_Group = '''', gvk_Version = ''v1'', gvk_Kind = ''Namespace''\<rparr>,
      rm_Scope = RESTScopeRoot\<rparr>"

definition noMatch :: error where
  "noMatch = StatusError StatusReasonUnknown ''no matches for kind''"

definition discovery_RESTMapping :: "schema_GroupKind \<Rightarrow> string \<Rightarrow> error + RESTMapping" where
  "discovery_RESTMapping gk version =
     (if gk_Kind gk = ''Deployment'' then Inr rm_deployments
      else if gk_Kind gk = ''ClusterRole'' then Inr rm_clusterroles
      else if gk_Kind gk = ''Pod'' then Inr rm_pods
      else if gk_Kind gk = ''Namespace'' then Inr rm_namespaces
      else Inl noMatch)"

definition discovery_KindFor ::
  "schema_GroupVersionResource \<Rightarrow> error + schema_GroupVersionKind" where
  "discovery_KindFor gvr =
     (if gvr_Resource gvr = ''pods'' then Inr (rm_GroupVersionKind rm_pods)
      else if gvr_Resource gvr = ''namespaces'' then Inr (rm_GroupVersionKind rm_namespaces)
      else if gvr_Resource gvr = ''clusterroles'' then Inr (rm_GroupVersionKind rm_clusterroles)
      else if gvr_Resource gvr = ''deployments'' then Inr (rm_GroupVersionKind rm_deployments)
      else Inl noMatch)"

definition notFound :: error where
  "notFound = StatusError StatusReasonNotFound ''not found''"

definition timedOut :: error where
  "timedOut = StatusError StatusReasonTimeout ''timeout''"

definition stored :: Unstructured where
  "stored = \<lparr>u_Group = '''', u_Version = ''v1'', u_Kind = ''Pod'', u_Name = ''p1'',
             u_Namespace = ''ns1'', u_Body = ''spec''\<rparr>"

text \<open>A cluster that holds nothing: every get, patch and delete answers not-found.\<close>

definition cluster_empty :: gateway where
  "cluster_empty =
     \<lparr>mapper_RESTMapping = discovery_RESTMapping,
      mapper_KindFor = discovery_KindFor,
      rest_RESTClientFor = (\<lambda>c. Inr (RESTClient c)),
      gw_Get = (\<lambda>log info. Inl notFound),
      gw_Create = (\<lambda>log helper ns modify obj. Inr obj),
      gw_replace = (\<lambda>log helper obj ns name. Inl notFound),
      gw_Refresh = (\<lambda>log info obj ignoreError. None),
      gw_Delete = (\<lambda>log gvr ns name opts. Some notFound),
      gw_Patch = (\<lambda>log gvr ns name strategy p. Inl notFound),
      gw_Infos = (\<lambda>log c ns. ([], None))\<rparr>"

text \<open>
  A cluster that holds every resource it is asked for, and in which refreshing the
  local view fails.
\<close>

definition cluster_full :: gateway where
  "cluster_full =
     \<lparr>mapper_RESTMapping = discovery_RESTMapping,
      mapper_KindFor = discovery_KindFor,
      rest_RESTClientFor = (\<lambda>c. Inr (RESTClient c)),
      gw_Get = (\<lambda>log info. Inr info),
      gw_Create = (\<lambda>log helper ns modify obj.
                     Inl (StatusError StatusReasonAlreadyExists ''exists'')),
      gw_replace = (\<lambda>log helper obj ns name. Inr obj),
      gw_Refresh = (\<lambda>log info obj ignoreError.
                      Some (StatusError StatusReasonUnknown ''no accessor'')),
      gw_Delete = (\<lambda>log gvr ns name opts. None),
      gw_Patch = (\<lambda>log gvr ns name strategy p. Inr stored),
      gw_Infos = (\<lambda>log c ns.
                    ([\<lparr>info_Client = RESTClient c, info_Mapping = rm_pods, info_Namespace = ns,
                       info_Name = ''p1'', info_Source = '''', info_ResourceVersion = ''v1''\<rparr>],
                     None))\<rparr>"

text \<open>A cluster that answers every request with a timeout.\<close>

definition cluster_down :: gateway where
  "cluster_down =
     \<lparr>mapper_RESTMapping = discovery_RESTMapping,
      mapper_KindFor = discovery_KindFor,
      rest_RESTClientFor = (\<lambda>c. Inr (RESTClient c)),
      gw_Get = (\<lambda>log info. Inl timedOut),
      gw_Create = (\<lambda>log helper ns modify obj. Inl timedOut),
      gw_replace = (\<lambda>log helper obj ns name. Inl timedOut),
      gw_Refresh = (\<lambda>log info obj ignoreError. Some timedOut),
      gw_Delete = (\<lambda>log gvr ns name opts. Some timedOut),
      gw_Patch = (\<lambda>log gvr ns name strategy p. Inl timedOut),
      gw_Infos = (\<lambda>log c ns. ([], Some timedOut))\<rparr>"

definition kube0 :: KubeClient where
  "kube0 =
     \<lparr>config = \<lparr>cfg_Host = ''https://cluster'', cfg_APIPath = '''', cfg_GroupVersion = None,
                 cfg_ContentConfig = ''''\<rparr>,
      calls = []\<rparr>"

definition deployment :: "string \<Rightarrow> Unstructured" where
  "deployment ns =
     \<lparr>u_Group = ''apps'', u_Version = ''v1'', u_Kind = ''Deployment'', u_Name = ''web'',
      u_Namespace = ns, u_Body = ''replicas: 2''\<rparr>"

definition clusterRole :: "string \<Rightarrow> Unstructured" where
  "clusterRole ns =
     \<lparr>u_Group = ''rbac.authorization.k8s.io'', u_Version = ''v1'', u_Kind = ''ClusterRole'',
      u_Name = ''cr1'', u_Namespace = ns, u_Body = ''rules''\<rparr>"

text \<open>
  A custom resource type whose kind is also named \<open>Namespace\<close> and which is
  namespace-scoped (message-bus namespaces of a cloud provider), and a cluster whose
  discovery knows it under the resource name \<open>busnamespaces\<close>.
\<close>

definition rm_busnamespaces :: RESTMapping where
  "rm_busnamespaces =
     \<lparr>rm_Resource = \<lparr>gvr_Group = ''servicebus.example.com'', gvr_Version = ''v1'',
                     gvr_Resource = ''busnamespaces''\<rparr>,
      rm_GroupVersionKind = \<lparr>gvk_Group = ''servicebus.example.com'', gvk_Version = ''v1'',
                             gvk_Kind = ''Namespace''\<rparr>,
      rm_Scope = RESTScopeNamespace\<rparr>"

definition custom_RESTMapping :: "schema_GroupKind \<Rightarrow> string \<Rightarrow> error + RESTMapping" where
  "custom_RESTMapping gk version =
     (if gk_Group gk = ''servicebus.example.com'' \<and> gk_Kind gk = ''Namespace''
      then Inr rm_busnamespaces
      else discovery_RESTMapping gk version)"

definition custom_KindFor ::
  "schema_GroupVersionResource \<Rightarrow> error + schema_GroupVersionKind" where
  "custom_KindFor gvr =
     (if gvr_Resource gvr = ''busnamespaces'' then Inr (rm_GroupVersionKind rm_busnamespaces)
      else discovery_KindFor gvr)"

definition cluster_custom :: gateway where
  "cluster_custom =
     cluster_full\<lparr>mapper_RESTMapping := custom_RESTMapping, mapper_KindFor := custom_KindFor\<rparr>"

section \<open>Properties\<close>

subsection \<open>Auxiliary facts\<close>

lemmas request_defs =
  info_Get_def helper_Create_def replace_def info_Refresh_def dynamic_Delete_def
  dynamic_Patch_def builder_Infos_def

lemmas apply_defs =
  ApplyWithNamespaceOverride_def Let_def info_Get_def helper_Create_def replace_def
  info_Refresh_def emptyMetadata_def

lemmas namespace_defs =
  setDefaultNamespaceIfScopedAndNoneSet_def setNamespaceIfScoped_def GetNamespace_def
  SetNamespace_def GetName_def GroupVersionKind_def

lemmas delete_defs =
  DeleteResourceByKindAndNameAndNamespace_def Let_def dynamic_Delete_def

lemmas example_defs =
  cluster_empty_def cluster_full_def cluster_down_def discovery_RESTMapping_def
  discovery_KindFor_def rm_deployments_def rm_clusterroles_def rm_pods_def rm_namespaces_def
  notFound_def timedOut_def noMatch_def kube0_def deployment_def clusterRole_def stored_def

lemmas eval_defs =
  apply_defs namespace_defs request_defs newRestClient_def NewHelper_def GroupKind_def
  GroupVersion_def RESTScopeNameNamespace_def RESTScopeNameRoot_def IsNotFound_def
  UnstructuredPlusDefaultContentConfig_def DeleteResourceByKindAndNameAndNamespace_def
  PatchUsingStrategy_def DeleteNamespace_def emptyDeleteOptions_def isDelete_def isCreate_def
  isReplace_def

text \<open>A helper is namespace-scoped exactly when the resolved type is.\<close>

lemma scoped_iff: "h_NamespaceScoped (NewHelper c m) = (rm_Scope m = RESTScopeNamespace)"
  by (cases "rm_Scope m")
    (simp_all add: NewHelper_def RESTScopeNameNamespace_def RESTScopeNameRoot_def)

text \<open>The two namespace functions of lines 362-378, one after the other.\<close>

lemma namespace_cluster:
  "\<not> h_NamespaceScoped helper \<Longrightarrow>
   setNamespaceIfScoped ov (setDefaultNamespaceIfScopedAndNoneSet ov u helper) helper = u"
  by (simp add: setNamespaceIfScoped_def setDefaultNamespaceIfScopedAndNoneSet_def)

lemma namespace_scoped:
  "h_NamespaceScoped helper \<Longrightarrow>
   setNamespaceIfScoped ov (setDefaultNamespaceIfScopedAndNoneSet ov u helper) helper =
     (if GetNamespace u = '''' then SetNamespace (if ov = '''' then ''default'' else ov) u
      else u)"
  by (simp add: setNamespaceIfScoped_def setDefaultNamespaceIfScopedAndNoneSet_def Let_def
      GetNamespace_def SetNamespace_def)

lemma ToLower_Namespace: "ToLower ''Namespace'' = ''namespace''"
  by code_simp

lemma ToLower_Pod: "ToLower ''Pod'' = ''pod''"
  by code_simp

text \<open>The components of the results of the three operations.\<close>

lemma apply_split: "r = ((fst (fst r), snd (fst r)), fst (snd r), snd (snd r))"
  by simp

lemma delete_split: "r = ((fst (fst r), snd (fst r)), snd r)"
  by simp

lemma patch_split: "r = ((fst (fst r), fst (snd (fst r)), snd (snd (fst r))), snd r)"
  by simp

lemma calls_kube0: "calls kube0 = []"
  by (simp add: kube0_def)

subsection \<open>The namespace of a manifest during Apply\<close>

text \<open>
  C1, as the claim states it, fails. A ClusterRole, whose type is cluster-scoped, is
  applied with the namespace \<open>foo\<close> declared in the manifest and the override
  \<open>team-a\<close>: the apply succeeds, and both the manifest's namespace field and the
  Namespace of the result are \<open>foo\<close>, not the empty string.
\<close>

theorem C1_counterexample:
  "rm_Scope rm_clusterroles = RESTScopeRoot
   \<and> mapper_RESTMapping cluster_empty (GroupKind (GroupVersionKind (clusterRole ''foo''))) ''v1''
       = Inr rm_clusterroles
   \<and> fst (ApplyWithNamespaceOverride cluster_empty kube0 (clusterRole ''foo'') ''team-a'') =
       (\<lparr>Name = ''cr1'', Namespace = ''foo'', Resource = '''', Group = '''', Version = '''',
         Kind = ''ClusterRole''\<rparr>, None)
   \<and> GetNamespace (fst (snd (ApplyWithNamespaceOverride cluster_empty kube0
        (clusterRole ''foo'') ''team-a''))) = ''foo''"
  by (simp add: eval_defs example_defs)

text \<open>
  C1, amended. For every manifest whose resolved type is cluster-scoped, Apply leaves
  the manifest as it is, for every value of the override: the two namespace functions
  return the manifest unchanged, the manifest after Apply is the manifest before, and
  the Namespace of a successful result is the namespace the manifest declares. So the
  effective namespace is empty exactly when the manifest declares none.
\<close>

theorem C1_cluster_scoped_namespace_kept:
  assumes "mapper_RESTMapping gw (GroupKind (GroupVersionKind u))
             (gvk_Version (GroupVersionKind u)) = Inr restMapping"
      and "rm_Scope restMapping = RESTScopeRoot"
      and "ApplyWithNamespaceOverride gw kube u namespaceOverride = ((metadata, err), u', kube')"
  shows "setNamespaceIfScoped namespaceOverride
           (setDefaultNamespaceIfScopedAndNoneSet namespaceOverride u
              (NewHelper restClient restMapping))
           (NewHelper restClient restMapping) = u
         \<and> u' = u
         \<and> (err = None \<longrightarrow> Namespace metadata = GetNamespace u)"
  using assms
  by (auto simp add: apply_defs namespace_cluster scoped_iff
      split: sum.splits if_splits prod.splits)

theorem C1_cluster_scoped_namespace_kept_witness:
  "rm_Scope rm_clusterroles = RESTScopeRoot
   \<and> fst (snd (ApplyWithNamespaceOverride cluster_empty kube0 (clusterRole ''foo'') ''team-a''))
       = clusterRole ''foo''
   \<and> fst (snd (ApplyWithNamespaceOverride cluster_empty kube0 (clusterRole '''') ''team-a''))
       = clusterRole ''''"
proof -
  have m: "mapper_RESTMapping cluster_empty (GroupKind (GroupVersionKind (clusterRole ns)))
             (gvk_Version (GroupVersionKind (clusterRole ns))) = Inr rm_clusterroles" for ns
    by (simp add: example_defs GroupKind_def GroupVersionKind_def)
  have s: "rm_Scope rm_clusterroles = RESTScopeRoot"
    by (simp add: rm_clusterroles_def)
  from C1_cluster_scoped_namespace_kept [OF m s apply_split]
       C1_cluster_scoped_namespace_kept [OF m s apply_split] s
  show ?thesis by simp
qed

text \<open>
  C2. For every manifest whose resolved type is namespace-scoped, once the REST client
  is built the manifest after Apply is the result of the two namespace functions: its
  namespace is \<open>default\<close> when the manifest declares none and the override is empty,
  the override when the manifest declares none and the override is not empty, and the
  manifest is unchanged when it declares a namespace. No other field of the manifest
  changes, and a successful result carries that namespace.
\<close>

theorem C2_namespace_scoped_namespace:
  assumes "mapper_RESTMapping gw (GroupKind (GroupVersionKind u))
             (gvk_Version (GroupVersionKind u)) = Inr restMapping"
      and "rm_Scope restMapping = RESTScopeNamespace"
      and "newRestClient gw
             ((config kube)\<lparr>cfg_GroupVersion := Some (GroupVersion (GroupVersionKind u))\<rparr>)
             (GroupVersion (GroupVersionKind u)) = Inr restClient"
      and "ApplyWithNamespaceOverride gw kube u namespaceOverride = ((metadata, err), u', kube')"
  shows "u' = setNamespaceIfScoped namespaceOverride
           (setDefaultNamespaceIfScopedAndNoneSet namespaceOverride u
              (NewHelper restClient restMapping))
           (NewHelper restClient restMapping)
         \<and> (GetNamespace u = '''' \<and> namespaceOverride = '''' \<longrightarrow> GetNamespace u' = ''default'')
         \<and> (GetNamespace u = '''' \<and> namespaceOverride \<noteq> '''' \<longrightarrow>
              GetNamespace u' = namespaceOverride)
         \<and> (GetNamespace u \<noteq> '''' \<longrightarrow> u' = u)
         \<and> u' = u\<lparr>u_Namespace := GetNamespace u'\<rparr>
         \<and> (err = None \<longrightarrow> Namespace metadata = GetNamespace u')"
proof -
  let ?h = "NewHelper restClient restMapping"
  let ?u2 = "setNamespaceIfScoped namespaceOverride
               (setDefaultNamespaceIfScopedAndNoneSet namespaceOverride u ?h) ?h"
  have sc: "h_NamespaceScoped ?h"
    using assms(2) by (simp add: scoped_iff)
  have u': "u' = ?u2" and md: "err = None \<longrightarrow> Namespace metadata = GetNamespace ?u2"
    using assms(1,3,4)
    by (auto simp add: apply_defs split: sum.splits if_splits prod.splits)
  have eq: "?u2 =
      (if GetNamespace u = '''' then
         SetNamespace (if namespaceOverride = '''' then ''default'' else namespaceOverride) u
       else u)"
    by (rule namespace_scoped [OF sc])
  show ?thesis
    using u' md eq by (simp add: GetNamespace_def SetNamespace_def)
qed

theorem C2_namespace_scoped_namespace_witness:
  "GetNamespace (fst (snd (ApplyWithNamespaceOverride cluster_empty kube0 (deployment '''') '''')))
     = ''default''
   \<and> GetNamespace (fst (snd (ApplyWithNamespaceOverride cluster_empty kube0 (deployment '''')
        ''team-a''))) = ''team-a''
   \<and> fst (snd (ApplyWithNamespaceOverride cluster_empty kube0 (deployment ''foo'') ''bar''))
     = deployment ''foo''"
proof -
  have m: "mapper_RESTMapping cluster_empty (GroupKind (GroupVersionKind (deployment ns)))
             (gvk_Version (GroupVersionKind (deployment ns))) = Inr rm_deployments" for ns
    by (simp add: example_defs GroupKind_def GroupVersionKind_def)
  have s: "rm_Scope rm_deployments = RESTScopeNamespace"
    by (simp add: rm_deployments_def)
  have c: "newRestClient cluster_empty
             ((config kube0)\<lparr>cfg_GroupVersion :=
                Some (GroupVersion (GroupVersionKind (deployment ns)))\<rparr>)
             (GroupVersion (GroupVersionKind (deployment ns))) =
           Inr (RESTClient \<lparr>cfg_Host = ''https://cluster'', cfg_APIPath = ''/apis'',
                  cfg_GroupVersion = Some \<lparr>gv_Group = ''apps'', gv_Version = ''v1''\<rparr>,
                  cfg_ContentConfig = UnstructuredPlusDefaultContentConfig\<rparr>)" for ns
    by (simp add: example_defs newRestClient_def GroupVersion_def GroupVersionKind_def)
  have e1: "GetNamespace (deployment '''') = ''''"
    and e2: "GetNamespace (deployment ''foo'') \<noteq> ''''"
    by (simp_all add: deployment_def GetNamespace_def)
  have e3: "''team-a'' \<noteq> ''''"
    by simp
  have a: "GetNamespace (fst (snd (ApplyWithNamespaceOverride cluster_empty kube0
             (deployment '''') ''''))) = ''default''"
    using C2_namespace_scoped_namespace [OF m s c apply_split, of "''''" "''''"] e1 by blast
  have b: "GetNamespace (fst (snd (ApplyWithNamespaceOverride cluster_empty kube0
             (deployment '''') ''team-a''))) = ''team-a''"
    using C2_namespace_scoped_namespace [OF m s c apply_split, of "''''" "''team-a''"] e1 e3
    by blast
  have d: "fst (snd (ApplyWithNamespaceOverride cluster_empty kube0 (deployment ''foo'') ''bar''))
             = deployment ''foo''"
    using C2_namespace_scoped_namespace [OF m s c apply_split, of "''foo''" "''bar''"] e2
    by blast
  from a b d show ?thesis by blast
qed

subsection \<open>The paths of Apply\<close>

text \<open>
  C3. Let the first request of an Apply be the existence check \<open>CallGet info\<close>, and
  let the gateway answer it with the error \<open>e\<close>. The check asks for the resolved type,
  the manifest's name and its namespace after the namespace functions. If \<open>e\<close> is a
  not-found error, the one further request is the create call for the manifest. For
  any other error, Apply returns the empty result with \<open>e\<close> and sends nothing further:
  neither a create nor a replace call.
\<close>

theorem C3_lookup_failure:
  assumes "ApplyWithNamespaceOverride gw kube u namespaceOverride = ((metadata, err), u', kube')"
      and "calls kube' = calls kube @ CallGet info # rest"
      and "gw_Get gw (calls kube) info = Inl e"
  shows "mapper_RESTMapping gw (GroupKind (GroupVersionKind u))
           (gvk_Version (GroupVersionKind u)) = Inr (info_Mapping info)
         \<and> info_Name info = GetName u' \<and> info_Namespace info = GetNamespace u'
         \<and> (if IsNotFound e
             then (\<exists>helper. rest = [CallCreate helper (GetNamespace u') True u'])
             else metadata = emptyMetadata \<and> err = Some e \<and> rest = [])"
  using assms
  by (auto simp add: apply_defs split: sum.splits if_splits prod.splits)

theorem C3_lookup_failure_witness:
  "fst (ApplyWithNamespaceOverride cluster_down kube0 (deployment ''prod'') '''')
     = (emptyMetadata, Some timedOut)
   \<and> map isCreate (calls (snd (snd (ApplyWithNamespaceOverride cluster_empty kube0
        (deployment ''prod'') '''')))) = [False, True]"
proof -
  let ?down = "ApplyWithNamespaceOverride cluster_down kube0 (deployment ''prod'') ''''"
  let ?empty = "ApplyWithNamespaceOverride cluster_empty kube0 (deployment ''prod'') ''''"
  have "\<exists>info rest. calls (snd (snd ?down)) = calls kube0 @ CallGet info # rest
          \<and> gw_Get cluster_down (calls kube0) info = Inl timedOut"
    by (simp add: eval_defs example_defs)
  then obtain info rest where
    l1: "calls (snd (snd ?down)) = calls kube0 @ CallGet info # rest" and
    g1: "gw_Get cluster_down (calls kube0) info = Inl timedOut"
    by blast
  have "\<exists>info rest. calls (snd (snd ?empty)) = calls kube0 @ CallGet info # rest
          \<and> gw_Get cluster_empty (calls kube0) info = Inl notFound"
    by (simp add: eval_defs example_defs)
  then obtain info2 rest2 where
    l2: "calls (snd (snd ?empty)) = calls kube0 @ CallGet info2 # rest2" and
    g2: "gw_Get cluster_empty (calls kube0) info2 = Inl notFound"
    by blast
  from C3_lookup_failure [OF apply_split l1 g1] C3_lookup_failure [OF apply_split l2 g2]
    l2 calls_kube0
  show ?thesis
    by (auto simp add: IsNotFound_def timedOut_def notFound_def isCreate_def prod_eq_iff)
qed

text \<open>
  C4, as the claim states it, fails on the replace path. A Deployment that exists is
  applied: the requests are the existence check, the replace call and the refresh,
  the apply succeeds, and Group, Version and Resource of the result are empty although
  the resolved type is \<open>apps\<close>, \<open>v1\<close>, \<open>deployments\<close>.
\<close>

theorem C4_counterexample:
  "rm_Resource rm_deployments =
     \<lparr>gvr_Group = ''apps'', gvr_Version = ''v1'', gvr_Resource = ''deployments''\<rparr>
   \<and> mapper_RESTMapping cluster_full (GroupKind (GroupVersionKind (deployment ''prod''))) ''v1''
       = Inr rm_deployments
   \<and> map isReplace (calls (snd (snd (ApplyWithNamespaceOverride cluster_full kube0
        (deployment ''prod'') '''')))) = [False, True, False]
   \<and> fst (ApplyWithNamespaceOverride cluster_full kube0 (deployment ''prod'') '''') =
       (\<lparr>Name = ''web'', Namespace = ''prod'', Resource = '''', Group = '''', Version = '''',
         Kind = ''Deployment''\<rparr>, None)"
  by (simp add: eval_defs example_defs)

text \<open>
  C4, amended. The result of a successful Apply is populated the same way on both
  paths: Name, Namespace and Kind are taken from the manifest, and Group, Version and
  Resource are left unset. The requests of a successful Apply are the existence check
  followed either by the create call (the create path) or by the replace call and the
  refresh (the replace path).
\<close>

theorem C4_result_of_apply:
  assumes "ApplyWithNamespaceOverride gw kube u namespaceOverride = ((metadata, None), u', kube')"
  shows "metadata = \<lparr>Name = GetName u', Namespace = GetNamespace u', Resource = '''',
                      Group = '''', Version = '''', Kind = gvk_Kind (GroupVersionKind u')\<rparr>
         \<and> ((\<exists>info helper. calls kube' = calls kube @
                [CallGet info, CallCreate helper (GetNamespace u') True u'])
            \<or> (\<exists>info helper info1 obj. calls kube' = calls kube @
                [CallGet info, CallReplace helper u' (GetNamespace u') (GetName u'),
                 CallRefresh info1 obj True]))"
  using assms
  by (auto simp add: apply_defs namespace_defs split: sum.splits if_splits prod.splits)

theorem C4_result_of_apply_witness:
  "fst (fst (ApplyWithNamespaceOverride cluster_full kube0 (deployment ''prod'') '''')) =
     \<lparr>Name = ''web'', Namespace = ''prod'', Resource = '''', Group = '''', Version = '''',
       Kind = ''Deployment''\<rparr>
   \<and> fst (fst (ApplyWithNamespaceOverride cluster_empty kube0 (deployment ''prod'') '''')) =
     \<lparr>Name = ''web'', Namespace = ''prod'', Resource = '''', Group = '''', Version = '''',
       Kind = ''Deployment''\<rparr>"
proof -
  let ?full = "ApplyWithNamespaceOverride cluster_full kube0 (deployment ''prod'') ''''"
  let ?empty = "ApplyWithNamespaceOverride cluster_empty kube0 (deployment ''prod'') ''''"
  have r1: "?full = ((fst (fst ?full), None), fst (snd ?full), snd (snd ?full))"
    by (simp add: eval_defs example_defs)
  have r2: "?empty = ((fst (fst ?empty), None), fst (snd ?empty), snd (snd ?empty))"
    by (simp add: eval_defs example_defs)
  have u1: "fst (snd ?full) = deployment ''prod''"
    and u2: "fst (snd ?empty) = deployment ''prod''"
    by (simp_all add: eval_defs example_defs)
  from C4_result_of_apply [OF r1] C4_result_of_apply [OF r2] u1 u2
  show ?thesis
    by (simp add: deployment_def GetName_def GetNamespace_def GroupVersionKind_def)
qed

text \<open>
  C9. On the replace path, when the existence check finds the resource, the replace
  call succeeds and the refresh of the local view fails with an error \<open>e\<close>, the
  refresh is the last request, and Apply returns no error and the result built from
  the manifest: the error of the refresh is dropped.
\<close>

theorem C9_refresh_failure_swallowed:
  assumes "ApplyWithNamespaceOverride gw kube u namespaceOverride = ((metadata, err), u', kube')"
      and "calls kube' = calls kube @ CallGet info # CallReplace helper obj ns name # rest"
      and "gw_Get gw (calls kube) info = Inr info1"
      and "gw_replace gw (calls kube @ [CallGet info]) helper obj ns name = Inr replacedObject"
      and "gw_Refresh gw (calls kube @ [CallGet info, CallReplace helper obj ns name])
             info1 replacedObject True = Some e"
  shows "rest = [CallRefresh info1 replacedObject True] \<and> err = None
         \<and> metadata = \<lparr>Name = GetName u', Namespace = GetNamespace u', Resource = '''',
                        Group = '''', Version = '''', Kind = gvk_Kind (GroupVersionKind u')\<rparr>"
  using assms
  by (auto simp add: apply_defs namespace_defs split: sum.splits if_splits prod.splits)

theorem C9_refresh_failure_swallowed_witness:
  "fst (ApplyWithNamespaceOverride cluster_full kube0 (deployment ''prod'') '''') =
     (\<lparr>Name = ''web'', Namespace = ''prod'', Resource = '''', Group = '''', Version = '''',
       Kind = ''Deployment''\<rparr>, None)
   \<and> map isReplace (calls (snd (snd (ApplyWithNamespaceOverride cluster_full kube0
        (deployment ''prod'') '''')))) = [False, True, False]"
proof -
  let ?r = "ApplyWithNamespaceOverride cluster_full kube0 (deployment ''prod'') ''''"
  have "\<exists>info helper obj ns name rest info1 replacedObject e.
          calls (snd (snd ?r)) = calls kube0 @ CallGet info # CallReplace helper obj ns name # rest
        \<and> gw_Get cluster_full (calls kube0) info = Inr info1
        \<and> gw_replace cluster_full (calls kube0 @ [CallGet info]) helper obj ns name
            = Inr replacedObject
        \<and> gw_Refresh cluster_full (calls kube0 @ [CallGet info, CallReplace helper obj ns name])
            info1 replacedObject True = Some e"
    by (simp add: eval_defs example_defs)
  then obtain info helper obj ns name rest info1 replacedObject e where
    l: "calls (snd (snd ?r)) = calls kube0 @ CallGet info # CallReplace helper obj ns name # rest"
    and g: "gw_Get cluster_full (calls kube0) info = Inr info1"
    and rp: "gw_replace cluster_full (calls kube0 @ [CallGet info]) helper obj ns name
               = Inr replacedObject"
    and rf: "gw_Refresh cluster_full (calls kube0 @ [CallGet info, CallReplace helper obj ns name])
               info1 replacedObject True = Some e"
    by blast
  have u: "fst (snd ?r) = deployment ''prod''"
    by (simp add: eval_defs example_defs)
  from C9_refresh_failure_swallowed [OF apply_split l g rp rf] l u calls_kube0 show ?thesis
    by (simp add: prod_eq_iff deployment_def GetName_def GetNamespace_def GroupVersionKind_def
        isReplace_def)
qed

subsection \<open>Delete\<close>

text \<open>
  C5, evaluated where the code departs from the claim. Discovery resolves the resource
  name \<open>pods\<close> to the kind \<open>Pod\<close>. Deleting by the kind argument \<open>pods\<close> returns a
  result whose Kind is the argument \<open>pods\<close>, as line 203 writes \<open>Kind: kind\<close>, while
  patching by the same argument returns the resolved kind \<open>Pod\<close>, as line 300 writes
  \<open>gvk.Kind\<close>.
\<close>

theorem C5_delete_kind_is_argument:
  "mapper_KindFor cluster_full \<lparr>gvr_Group = '''', gvr_Version = '''', gvr_Resource = ''pods''\<rparr>
     = Inr \<lparr>gvk_Group = '''', gvk_Version = ''v1'', gvk_Kind = ''Pod''\<rparr>
   \<and> fst (DeleteResourceByKindAndNameAndNamespace cluster_full kube0 ''pods'' ''p1'' ''ns1''
        emptyDeleteOptions) =
       (Some \<lparr>Name = ''p1'', Namespace = ''ns1'', Resource = '''', Group = '''', Version = '''',
              Kind = ''pods''\<rparr>, None)
   \<and> fst (fst (PatchUsingStrategy cluster_full kube0 ''pods'' ''p1'' ''ns1'' ''{}''
        StrategicMergePatchType)) =
       \<lparr>Name = ''p1'', Namespace = ''ns1'', Resource = ''pods'', Group = '''', Version = ''v1'',
         Kind = ''Pod''\<rparr>"
  by (simp add: eval_defs example_defs ToLower_Pod)

text \<open>
  The Kind of the result of each operation, for every gateway: the kind argument for
  Delete, the kind that discovery resolved for Patch, the kind of the manifest for
  Apply.
\<close>

lemma Delete_Kind:
  "DeleteResourceByKindAndNameAndNamespace gw kube kind name namespace opts =
     ((Some metadata, err), kube') \<Longrightarrow> Kind metadata = kind"
  by (auto simp add: delete_defs split: sum.splits if_splits prod.splits)

lemma Patch_Kind:
  "mapper_KindFor gw \<lparr>gvr_Group = '''', gvr_Version = '''', gvr_Resource = kind\<rparr> = Inr gvk \<Longrightarrow>
   PatchUsingStrategy gw kube kind name namespace p strategy =
     ((metadata, patched, None), kube') \<Longrightarrow> Kind metadata = gvk_Kind gvk"
  by (auto simp add: PatchUsingStrategy_def Let_def dynamic_Patch_def
      split: sum.splits if_splits prod.splits)

lemma Apply_Kind:
  "ApplyWithNamespaceOverride gw kube u namespaceOverride = ((metadata, None), u', kube') \<Longrightarrow>
   Kind metadata = gvk_Kind (GroupVersionKind u)"
  by (auto simp add: apply_defs namespace_defs split: sum.splits if_splits prod.splits)

text \<open>
  C6, as the claim states it, fails. Line 169 recognises the namespace kind by the name
  of the resolved kind alone, and the endpoint is chosen by the resolved scope. For a
  type whose kind is named \<open>Namespace\<close> and which is namespace-scoped, the namespace
  argument is not ignored: the delete request carries it as it was given, so the
  arguments \<open>team-a\<close> and \<open>team-b\<close> send different requests and give different
  outcomes, while the Namespace of the result is empty for both.
\<close>

theorem C6_counterexample:
  "mapper_KindFor cluster_custom
     \<lparr>gvr_Group = '''', gvr_Version = '''', gvr_Resource = ''busnamespaces''\<rparr>
     = Inr (rm_GroupVersionKind rm_busnamespaces)
   \<and> ToLower (gvk_Kind (rm_GroupVersionKind rm_busnamespaces)) = ''namespace''
   \<and> rm_Scope rm_busnamespaces = RESTScopeNamespace
   \<and> calls (snd (DeleteResourceByKindAndNameAndNamespace cluster_custom kube0 ''busnamespaces''
        ''bus1'' ''team-a'' emptyDeleteOptions))
     = [CallDelete (rm_Resource rm_busnamespaces) (Some ''team-a'') ''bus1'' emptyDeleteOptions]
   \<and> calls (snd (DeleteResourceByKindAndNameAndNamespace cluster_custom kube0 ''busnamespaces''
        ''bus1'' ''team-b'' emptyDeleteOptions))
     = [CallDelete (rm_Resource rm_busnamespaces) (Some ''team-b'') ''bus1'' emptyDeleteOptions]
   \<and> fst (DeleteResourceByKindAndNameAndNamespace cluster_custom kube0 ''busnamespaces''
        ''bus1'' ''team-a'' emptyDeleteOptions)
     = (Some \<lparr>Name = ''bus1'', Namespace = '''', Resource = '''', Group = '''', Version = '''',
              Kind = ''busnamespaces''\<rparr>, None)
   \<and> DeleteResourceByKindAndNameAndNamespace cluster_custom kube0 ''busnamespaces''
        ''bus1'' ''team-a'' emptyDeleteOptions
     \<noteq> DeleteResourceByKindAndNameAndNamespace cluster_custom kube0 ''busnamespaces''
        ''bus1'' ''team-b'' emptyDeleteOptions"
  by (simp add: eval_defs example_defs cluster_custom_def custom_KindFor_def
      custom_RESTMapping_def rm_busnamespaces_def ToLower_Namespace)

text \<open>
  C6, amended. Let Delete resolve the kind argument and return a result. If the
  resolved kind is named as the namespace kind (its name in lower case is
  \<open>namespace\<close>), the Namespace of the result is empty for every namespace argument and
  no default is applied; the request carries the argument as given when the resolved
  type is namespace-scoped, and when the resolved type is cluster-scoped, as the
  namespace kind is, the argument is ignored: the whole outcome is the same for any
  other argument. For every other kind the Namespace of the result is the argument
  with the empty string replaced by \<open>default\<close>, the request to a namespace-scoped
  endpoint carries that namespace, and calling with the empty string is the same as
  calling with \<open>default\<close>.
\<close>

theorem C6_delete_namespace_argument:
  assumes "mapper_KindFor gw \<lparr>gvr_Group = '''', gvr_Version = '''', gvr_Resource = kind\<rparr> = Inr gvk"
      and "mapper_RESTMapping gw (GroupKind gvk) (gvk_Version gvk) = Inr restMapping"
      and "DeleteResourceByKindAndNameAndNamespace gw kube kind name namespace opts =
             ((Some metadata, err), kube')"
  shows "(ToLower (gvk_Kind gvk) = ''namespace'' \<longrightarrow>
            Namespace metadata = ''''
          \<and> calls kube' = calls kube @
              [CallDelete (rm_Resource restMapping)
                 (if rm_Scope restMapping = RESTScopeNamespace then Some namespace else None)
                 name opts]
          \<and> (rm_Scope restMapping = RESTScopeRoot \<longrightarrow>
                DeleteResourceByKindAndNameAndNamespace gw kube kind name other opts =
                DeleteResourceByKindAndNameAndNamespace gw kube kind name namespace opts))
       \<and> (ToLower (gvk_Kind gvk) \<noteq> ''namespace'' \<longrightarrow>
            Namespace metadata = (if namespace = '''' then ''default'' else namespace)
          \<and> calls kube' = calls kube @
              [CallDelete (rm_Resource restMapping)
                 (if rm_Scope restMapping = RESTScopeNamespace
                  then Some (if namespace = '''' then ''default'' else namespace) else None)
                 name opts]
          \<and> DeleteResourceByKindAndNameAndNamespace gw kube kind name '''' opts =
            DeleteResourceByKindAndNameAndNamespace gw kube kind name ''default'' opts)"
  using assms
  by (auto simp add: delete_defs scoped_iff split: sum.splits if_splits prod.splits)

theorem C6_delete_namespace_argument_witness:
  "Namespace (the (fst (fst (DeleteResourceByKindAndNameAndNamespace cluster_full kube0
      ''namespaces'' ''team-a'' ''anything'' emptyDeleteOptions)))) = ''''
   \<and> DeleteResourceByKindAndNameAndNamespace cluster_full kube0 ''namespaces'' ''team-a''
        '''' emptyDeleteOptions
     = DeleteResourceByKindAndNameAndNamespace cluster_full kube0 ''namespaces'' ''team-a''
        ''anything'' emptyDeleteOptions
   \<and> Namespace (the (fst (fst (DeleteResourceByKindAndNameAndNamespace cluster_full kube0
        ''pods'' ''p1'' '''' emptyDeleteOptions)))) = ''default''
   \<and> calls (snd (DeleteResourceByKindAndNameAndNamespace cluster_full kube0 ''pods'' ''p1'' ''''
          emptyDeleteOptions))
     = [CallDelete (rm_Resource rm_pods) (Some ''default'') ''p1'' emptyDeleteOptions]"
proof -
  let ?ns = "DeleteResourceByKindAndNameAndNamespace cluster_full kube0 ''namespaces'' ''team-a''
               ''anything'' emptyDeleteOptions"
  let ?pod = "DeleteResourceByKindAndNameAndNamespace cluster_full kube0 ''pods'' ''p1'' ''''
               emptyDeleteOptions"
  have k1: "mapper_KindFor cluster_full
              \<lparr>gvr_Group = '''', gvr_Version = '''', gvr_Resource = ''namespaces''\<rparr>
            = Inr (rm_GroupVersionKind rm_namespaces)"
    by (simp add: cluster_full_def discovery_KindFor_def)
  have m1: "mapper_RESTMapping cluster_full (GroupKind (rm_GroupVersionKind rm_namespaces))
              (gvk_Version (rm_GroupVersionKind rm_namespaces)) = Inr rm_namespaces"
    by (simp add: cluster_full_def discovery_RESTMapping_def GroupKind_def rm_namespaces_def)
  have r1: "?ns = ((Some (the (fst (fst ?ns))), snd (fst ?ns)), snd ?ns)"
    by (simp add: eval_defs example_defs ToLower_Namespace)
  have t1: "ToLower (gvk_Kind (rm_GroupVersionKind rm_namespaces)) = ''namespace''"
    by (simp add: rm_namespaces_def ToLower_Namespace)
  have s1: "rm_Scope rm_namespaces = RESTScopeRoot"
    by (simp add: rm_namespaces_def)
  have k2: "mapper_KindFor cluster_full
              \<lparr>gvr_Group = '''', gvr_Version = '''', gvr_Resource = ''pods''\<rparr>
            = Inr (rm_GroupVersionKind rm_pods)"
    by (simp add: cluster_full_def discovery_KindFor_def)
  have m2: "mapper_RESTMapping cluster_full (GroupKind (rm_GroupVersionKind rm_pods))
              (gvk_Version (rm_GroupVersionKind rm_pods)) = Inr rm_pods"
    by (simp add: cluster_full_def discovery_RESTMapping_def GroupKind_def rm_pods_def)
  have r2: "?pod = ((Some (the (fst (fst ?pod))), snd (fst ?pod)), snd ?pod)"
    by (simp add: eval_defs example_defs ToLower_Pod)
  have t2: "ToLower (gvk_Kind (rm_GroupVersionKind rm_pods)) \<noteq> ''namespace''"
    by (simp add: rm_pods_def ToLower_Pod)
  have s2: "rm_Scope rm_pods = RESTScopeNamespace"
    by (simp add: rm_pods_def)
  have a: "Namespace (the (fst (fst ?ns))) = ''''"
    and b: "DeleteResourceByKindAndNameAndNamespace cluster_full kube0 ''namespaces'' ''team-a''
              '''' emptyDeleteOptions = ?ns"
    using C6_delete_namespace_argument [OF k1 m1 r1, of "''''"] t1 s1 by blast+
  note pod = C6_delete_namespace_argument [OF k2 m2 r2, of "''''", THEN conjunct2, THEN mp, OF t2]
  have c: "Namespace (the (fst (fst ?pod))) = ''default''"
    using pod [THEN conjunct1] by simp
  have d: "calls (snd ?pod) =
             [CallDelete (rm_Resource rm_pods) (Some ''default'') ''p1'' emptyDeleteOptions]"
    using pod [THEN conjunct2, THEN conjunct1] s2 calls_kube0 by simp
  from a b c d show ?thesis
    by blast
qed

text \<open>
  C10. Whenever Delete has sent its delete request, it returns a result that is not
  nil and describes the target: the Kind and Name are the arguments, the Namespace is
  the one the request was prepared with, empty for the namespace kind. The error is
  the answer of the gateway, so a failed request returns the descriptor together with
  the error. Apply and Patch return the empty result whenever they return an error.
\<close>

theorem C10_delete_returns_descriptor:
  assumes "mapper_KindFor gw \<lparr>gvr_Group = '''', gvr_Version = '''', gvr_Resource = kind\<rparr> = Inr gvk"
      and "DeleteResourceByKindAndNameAndNamespace gw kube kind name namespace opts =
             ((result, err), kube')"
      and "calls kube' = calls kube @ [CallDelete gvr target name' opts']"
  shows "result = Some \<lparr>Name = name,
                         Namespace = (if ToLower (gvk_Kind gvk) = ''namespace'' then ''''
                                      else if namespace = '''' then ''default'' else namespace),
                         Resource = '''', Group = '''', Version = '''', Kind = kind\<rparr>
       \<and> err = gw_Delete gw (calls kube) gvr target name' opts'
       \<and> (gw_Delete gw (calls kube) gvr target name' opts' = Some e \<longrightarrow>
            result \<noteq> None \<and> err = Some e)
       \<and> (ApplyWithNamespaceOverride gw kubeA u namespaceOverride =
              ((metadataA, Some errA), uA, kubeA')
            \<longrightarrow> metadataA = emptyMetadata)
       \<and> (PatchUsingStrategy gw kubeP kindP nameP namespaceP p strategy =
              ((metadataP, patched, Some errP), kubeP')
            \<longrightarrow> metadataP = emptyMetadata \<and> patched = None)"
proof -
  have del: "result = Some \<lparr>Name = name,
                         Namespace = (if ToLower (gvk_Kind gvk) = ''namespace'' then ''''
                                      else if namespace = '''' then ''default'' else namespace),
                         Resource = '''', Group = '''', Version = '''', Kind = kind\<rparr>
       \<and> err = gw_Delete gw (calls kube) gvr target name' opts'"
    using assms
    by (auto simp add: delete_defs split: sum.splits if_splits prod.splits)
  have app: "ApplyWithNamespaceOverride gw kubeA u namespaceOverride =
               ((metadataA, Some errA), uA, kubeA')
            \<longrightarrow> metadataA = emptyMetadata"
    by (auto simp add: ApplyWithNamespaceOverride_def Let_def info_Get_def helper_Create_def
        replace_def info_Refresh_def split: sum.splits if_splits prod.splits)
  have pat: "PatchUsingStrategy gw kubeP kindP nameP namespaceP p strategy =
              ((metadataP, patched, Some errP), kubeP')
            \<longrightarrow> metadataP = emptyMetadata \<and> patched = None"
    by (auto simp add: PatchUsingStrategy_def Let_def dynamic_Patch_def
        split: sum.splits if_splits prod.splits)
  from del app pat show ?thesis by simp
qed

theorem C10_delete_returns_descriptor_witness:
  "fst (DeleteResourceByKindAndNameAndNamespace cluster_down kube0 ''pods'' ''p1'' ''ns1''
          emptyDeleteOptions)
     = (Some \<lparr>Name = ''p1'', Namespace = ''ns1'', Resource = '''', Group = '''', Version = '''',
              Kind = ''pods''\<rparr>, Some timedOut)"
proof -
  let ?r = "DeleteResourceByKindAndNameAndNamespace cluster_down kube0 ''pods'' ''p1'' ''ns1''
              emptyDeleteOptions"
  have k1: "mapper_KindFor cluster_down
              \<lparr>gvr_Group = '''', gvr_Version = '''', gvr_Resource = ''pods''\<rparr>
            = Inr (rm_GroupVersionKind rm_pods)"
    by (simp add: cluster_down_def discovery_KindFor_def)
  have l: "calls (snd ?r) = calls kube0 @
             [CallDelete (rm_Resource rm_pods) (Some ''ns1'') ''p1'' emptyDeleteOptions]"
    by (simp add: eval_defs example_defs ToLower_Pod)
  have g: "gw_Delete cluster_down (calls kube0) (rm_Resource rm_pods) (Some ''ns1'') ''p1''
             emptyDeleteOptions = Some timedOut"
    by (simp add: cluster_down_def)
  have t: "ToLower (gvk_Kind (rm_GroupVersionKind rm_pods)) \<noteq> ''namespace''"
    by (simp add: rm_pods_def ToLower_Pod)
  from C10_delete_returns_descriptor [OF k1 delete_split l] g t show ?thesis
    by (simp add: prod_eq_iff)
qed

text \<open>
  C7. \<open>DeleteNamespace\<close> first asks for the listing of the namespace. If gathering the
  listing fails, it returns that error and the listing is its only request. If the
  listing is not empty, it returns no error and the listing is its only request. If
  the listing is empty, it sends the delete of the namespace object to the
  cluster-scoped endpoint and returns the answer. So a delete request is among its
  requests if and only if the listing succeeded and is empty.
\<close>

theorem C7_delete_namespace_only_if_empty:
  assumes "DeleteNamespace gw kube namespace = (err, kube')"
      and "gw_Infos gw (calls kube) (config kube) namespace = (infos, listErr)"
  shows "(listErr \<noteq> None \<longrightarrow>
            err = listErr \<and> calls kube' = calls kube @ [CallInfos (config kube) namespace])
       \<and> (listErr = None \<and> infos \<noteq> [] \<longrightarrow>
            err = None \<and> calls kube' = calls kube @ [CallInfos (config kube) namespace])
       \<and> (listErr = None \<and> infos = [] \<longrightarrow>
            calls kube' = calls kube @
              [CallInfos (config kube) namespace,
               CallDelete \<lparr>gvr_Group = '''', gvr_Version = ''v1'', gvr_Resource = ''namespaces''\<rparr>
                 None namespace emptyDeleteOptions]
          \<and> err = gw_Delete gw (calls kube @ [CallInfos (config kube) namespace])
                    \<lparr>gvr_Group = '''', gvr_Version = ''v1'', gvr_Resource = ''namespaces''\<rparr>
                    None namespace emptyDeleteOptions)
       \<and> (list_ex isDelete (drop (length (calls kube)) (calls kube'))
            \<longleftrightarrow> listErr = None \<and> infos = [])"
  using assms
  by (auto simp add: DeleteNamespace_def builder_Infos_def dynamic_Delete_def Let_def
      isDelete_def split: prod.splits if_splits)

theorem C7_delete_namespace_only_if_empty_witness:
  "DeleteNamespace cluster_full kube0 ''team-a''
     = (None, kube0\<lparr>calls := [CallInfos (config kube0) ''team-a'']\<rparr>)
   \<and> DeleteNamespace cluster_down kube0 ''team-a''
     = (Some timedOut, kube0\<lparr>calls := [CallInfos (config kube0) ''team-a'']\<rparr>)
   \<and> calls (snd (DeleteNamespace cluster_empty kube0 ''team-a''))
     = [CallInfos (config kube0) ''team-a'',
        CallDelete \<lparr>gvr_Group = '''', gvr_Version = ''v1'', gvr_Resource = ''namespaces''\<rparr>
          None ''team-a'' emptyDeleteOptions]"
proof -
  have i1: "gw_Infos cluster_full (calls kube0) (config kube0) ''team-a'' =
              ([\<lparr>info_Client = RESTClient (config kube0), info_Mapping = rm_pods,
                 info_Namespace = ''team-a'', info_Name = ''p1'', info_Source = '''',
                 info_ResourceVersion = ''v1''\<rparr>], None)"
    by (simp add: cluster_full_def)
  have i2: "gw_Infos cluster_down (calls kube0) (config kube0) ''team-a'' = ([], Some timedOut)"
    by (simp add: cluster_down_def)
  have i3: "gw_Infos cluster_empty (calls kube0) (config kube0) ''team-a'' = ([], None)"
    by (simp add: cluster_empty_def)
  have u: "snd (DeleteNamespace gw kube0 ns) =
             kube0\<lparr>calls := calls (snd (DeleteNamespace gw kube0 ns))\<rparr>" for gw ns
    by (simp add: DeleteNamespace_def builder_Infos_def dynamic_Delete_def Let_def
        split: prod.splits)
  have a: "fst (DeleteNamespace cluster_full kube0 ''team-a'') = None \<and>
           calls (snd (DeleteNamespace cluster_full kube0 ''team-a'')) =
             [CallInfos (config kube0) ''team-a'']"
    using C7_delete_namespace_only_if_empty [OF prod.collapse [symmetric] i1] calls_kube0
    by simp
  have b: "fst (DeleteNamespace cluster_down kube0 ''team-a'') = Some timedOut \<and>
           calls (snd (DeleteNamespace cluster_down kube0 ''team-a'')) =
             [CallInfos (config kube0) ''team-a'']"
    using C7_delete_namespace_only_if_empty [OF prod.collapse [symmetric] i2] calls_kube0
    by simp
  have c: "calls (snd (DeleteNamespace cluster_empty kube0 ''team-a'')) =
             [CallInfos (config kube0) ''team-a'',
              CallDelete \<lparr>gvr_Group = '''', gvr_Version = ''v1'', gvr_Resource = ''namespaces''\<rparr>
                None ''team-a'' emptyDeleteOptions]"
    using C7_delete_namespace_only_if_empty [OF prod.collapse [symmetric] i3] calls_kube0
    by simp
  from a b c u [of cluster_full "''team-a''"] u [of cluster_down "''team-a''"]
  show ?thesis
    by (simp add: prod_eq_iff)
qed

subsection \<open>Patch\<close>

text \<open>
  C8. Once the type is resolved and the REST client is built, the one request of a
  Patch is the patch itself: it goes to the namespace-scoped endpoint with the
  namespace argument when the resolved type is namespace-scoped, and to the
  cluster-scoped endpoint otherwise, where the namespace argument plays no part in
  the outcome. When the gateway answers with an error, not-found included, Patch
  returns the empty result, no object and that error; no create request is sent.
\<close>

theorem C8_patch_dispatch:
  assumes "mapper_KindFor gw \<lparr>gvr_Group = '''', gvr_Version = '''', gvr_Resource = kind\<rparr> = Inr gvk"
      and "mapper_RESTMapping gw (GroupKind gvk) (gvk_Version gvk) = Inr restMapping"
      and "newRestClient gw (config kube) (GroupVersion gvk) = Inr restClient"
      and "PatchUsingStrategy gw kube kind name namespace p strategy =
             ((metadata, patched, err), kube')"
  shows "calls kube' = calls kube @
           [CallPatch (rm_Resource restMapping)
              (if rm_Scope restMapping = RESTScopeNamespace then Some namespace else None)
              name strategy p]
       \<and> (rm_Scope restMapping = RESTScopeRoot \<longrightarrow>
            PatchUsingStrategy gw kube kind name other p strategy =
            PatchUsingStrategy gw kube kind name namespace p strategy)
       \<and> (\<forall>e. gw_Patch gw (calls kube) (rm_Resource restMapping)
                 (if rm_Scope restMapping = RESTScopeNamespace then Some namespace else None)
                 name strategy p = Inl e \<longrightarrow>
              metadata = emptyMetadata \<and> patched = None \<and> err = Some e)"
  using assms
  by (auto simp add: PatchUsingStrategy_def Let_def dynamic_Patch_def scoped_iff
      split: sum.splits if_splits prod.splits)

theorem C8_patch_dispatch_witness:
  "IsNotFound notFound
   \<and> PatchUsingStrategy cluster_empty kube0 ''pods'' ''p1'' ''ns1'' ''{}'' StrategicMergePatchType
     = ((emptyMetadata, None, Some notFound),
        kube0\<lparr>calls := [CallPatch (rm_Resource rm_pods) (Some ''ns1'') ''p1''
                          StrategicMergePatchType ''{}'']\<rparr>)
   \<and> calls (snd (PatchUsingStrategy cluster_full kube0 ''clusterroles'' ''cr1'' ''ns1'' ''{}''
        MergePatchType))
     = [CallPatch (rm_Resource rm_clusterroles) None ''cr1'' MergePatchType ''{}'']"
proof -
  let ?pod = "PatchUsingStrategy cluster_empty kube0 ''pods'' ''p1'' ''ns1'' ''{}''
                StrategicMergePatchType"
  let ?cr = "PatchUsingStrategy cluster_full kube0 ''clusterroles'' ''cr1'' ''ns1'' ''{}''
               MergePatchType"
  have k1: "mapper_KindFor cluster_empty
              \<lparr>gvr_Group = '''', gvr_Version = '''', gvr_Resource = ''pods''\<rparr>
            = Inr (rm_GroupVersionKind rm_pods)"
    by (simp add: cluster_empty_def discovery_KindFor_def)
  have m1: "mapper_RESTMapping cluster_empty (GroupKind (rm_GroupVersionKind rm_pods))
              (gvk_Version (rm_GroupVersionKind rm_pods)) = Inr rm_pods"
    by (simp add: cluster_empty_def discovery_RESTMapping_def GroupKind_def rm_pods_def)
  have "\<exists>c. newRestClient cluster_empty (config kube0)
               (GroupVersion (rm_GroupVersionKind rm_pods)) = Inr c"
    by (simp add: cluster_empty_def newRestClient_def Let_def)
  then obtain c1 where c1: "newRestClient cluster_empty (config kube0)
               (GroupVersion (rm_GroupVersionKind rm_pods)) = Inr c1"
    by blast
  have s1: "rm_Scope rm_pods = RESTScopeNamespace"
    by (simp add: rm_pods_def)
  have p1: "gw_Patch cluster_empty (calls kube0) (rm_Resource rm_pods) (Some ''ns1'') ''p1''
              StrategicMergePatchType ''{}'' = Inl notFound"
    by (simp add: cluster_empty_def)
  have k2: "mapper_KindFor cluster_full
              \<lparr>gvr_Group = '''', gvr_Version = '''', gvr_Resource = ''clusterroles''\<rparr>
            = Inr (rm_GroupVersionKind rm_clusterroles)"
    by (simp add: cluster_full_def discovery_KindFor_def)
  have m2: "mapper_RESTMapping cluster_full (GroupKind (rm_GroupVersionKind rm_clusterroles))
              (gvk_Version (rm_GroupVersionKind rm_clusterroles)) = Inr rm_clusterroles"
    by (simp add: cluster_full_def discovery_RESTMapping_def GroupKind_def rm_clusterroles_def)
  have "\<exists>c. newRestClient cluster_full (config kube0)
               (GroupVersion (rm_GroupVersionKind rm_clusterroles)) = Inr c"
    by (simp add: cluster_full_def newRestClient_def Let_def)
  then obtain c2 where c2: "newRestClient cluster_full (config kube0)
               (GroupVersion (rm_GroupVersionKind rm_clusterroles)) = Inr c2"
    by blast
  have s2: "rm_Scope rm_clusterroles = RESTScopeRoot"
    by (simp add: rm_clusterroles_def)
  have u: "snd ?pod = kube0\<lparr>calls := calls (snd ?pod)\<rparr>"
    by (simp add: PatchUsingStrategy_def dynamic_Patch_def Let_def
        split: sum.splits prod.splits)
  have a: "calls (snd ?pod) = [CallPatch (rm_Resource rm_pods) (Some ''ns1'') ''p1''
                                 StrategicMergePatchType ''{}'']
           \<and> fst ?pod = (emptyMetadata, None, Some notFound)"
    using C8_patch_dispatch [OF k1 m1 c1 patch_split] s1 p1 calls_kube0
    by (simp add: prod_eq_iff)
  have b: "calls (snd ?cr) = [CallPatch (rm_Resource rm_clusterroles) None ''cr1''
                                MergePatchType ''{}'']"
    using C8_patch_dispatch [OF k2 m2 c2 patch_split] s2 calls_kube0 by simp
  have n: "IsNotFound notFound"
    by (simp add: IsNotFound_def notFound_def)
  from a b u n show ?thesis
    by (simp add: prod_eq_iff)
qed

end
